theory Spec2Isabelle
  imports Complex_Main "HOL-Library.Sublist"
begin

section \<open>Data model of src/Units/ghosts.py\<close>

text \<open>
  A pygame \<open>Vector2\<close> is a pair of coordinates; the floats of the program are read as
  reals. Every class of the file derives from \<open>Unit\<close>, of which only the field
  \<open>position\<close> is used here. The sprite, the sound channel, the cell and world sizes and
  the render group carry no state the properties below speak about and are left out.
\<close>

type_synonym vec2 = "real \<times> real"

datatype error = ValueError | TypeError

record base_unit =
  position :: vec2

record ghost = base_unit +
  last_move :: vec2

record ghost_splitter = base_unit +
  splitterType :: string

record player = base_unit +
  health :: int

text \<open>The constants imported from \<open>src.settings\<close>; their values are parameters.\<close>

record settings =
  GHOST_SPEED :: real
  MAX_GHOSTS_PER_STATE :: nat
  PROB_GHOST_ATTACK :: real
  GHOST_ATTACK_RADIUS :: real

text \<open>
  The three helpers imported from \<open>src.Units.utils\<close>. Their code is not part of the
  file, so they are parameters of the model: the quantum state is of an arbitrary type
  \<open>'q\<close> wherever the program only hands it to \<open>beam_splitter\<close>, whose optional third
  argument is an \<open>option\<close>.
\<close>

record 'q utils =
  two_ghost_coming_from_different_sides_of_splitter :: "ghost \<Rightarrow> ghost \<Rightarrow> string \<Rightarrow> bool"
  beam_splitter :: "'q \<Rightarrow> nat \<Rightarrow> nat option \<Rightarrow> 'q"
  is_in_attack_radius :: "vec2 \<Rightarrow> vec2 \<Rightarrow> real \<Rightarrow> bool"

text \<open>The keys of \<open>DIR_DICT\<close> and the dictionary itself.\<close>

datatype dir_key = L | R | D | U

fun DIR_DICT :: "dir_key \<Rightarrow> vec2" where
  "DIR_DICT L = (-1, 0)"
| "DIR_DICT R = (1, 0)"
| "DIR_DICT D = (0, -1)"
| "DIR_DICT U = (0, 1)"

section \<open>Ghost\<close>

text \<open>
  \<open>Ghost.__init__\<close>: \<open>self.last_move = last_move if last_move else Vector2(-1, 0)\<close>.
  The argument defaults to \<open>None\<close>; a \<open>Vector2\<close> is false exactly when it is the zero
  vector.
\<close>

definition Ghost_init :: "vec2 \<Rightarrow> vec2 option \<Rightarrow> ghost" where
  "Ghost_init pos lm =
     \<lparr>position = pos,
      last_move = (case lm of
                     None \<Rightarrow> (-1, 0)
                   | Some v \<Rightarrow> if v \<noteq> (0, 0) then v else (-1, 0))\<rparr>"

text \<open>
  \<open>Ghost.calculate_move_vector\<close>: the two random draws are arguments, \<open>r\<close> the value of
  \<open>np.random.random()\<close> and \<open>k\<close> the key returned by \<open>np.random.choice\<close>.
\<close>

definition calculate_move_vector :: "settings \<Rightarrow> real \<Rightarrow> dir_key \<Rightarrow> vec2" where
  "calculate_move_vector cfg r k =
     (if r < GHOST_SPEED cfg then (0, 0) else DIR_DICT k)"

text \<open>
  \<open>Ghost.update\<close>. The local \<open>moveVector\<close> is assigned twice; \<open>update_moveVector\<close> is
  its value when \<open>super().update\<close> is called. \<open>Unit.update\<close> is not part of the file and
  is the parameter \<open>unit_update\<close>.
\<close>

definition update_moveVector :: "settings \<Rightarrow> real \<Rightarrow> dir_key \<Rightarrow> ghost \<Rightarrow> vec2" where
  "update_moveVector cfg r k g =
     (let moveVector = calculate_move_vector cfg r k;
          moveVector = last_move g
      in moveVector)"

definition Ghost_update ::
  "(vec2 \<Rightarrow> ghost \<Rightarrow> ghost) \<Rightarrow> settings \<Rightarrow> real \<Rightarrow> dir_key \<Rightarrow> ghost \<Rightarrow> ghost" where
  "Ghost_update unit_update cfg r k g =
     (let moveVector = update_moveVector cfg r k g;
          g1 = g\<lparr>last_move := moveVector\<rparr>;
          g2 = unit_update moveVector g1
      in g2\<lparr>last_move := moveVector\<rparr>)"

section \<open>The quantum state\<close>

text \<open>
  A qutip ket is its column of amplitudes. \<open>ket n N\<close> is qutip's \<open>ket([n], N)\<close>, the only
  form the program calls: the basis vector of dimension \<open>N\<close> with amplitude 1 at index
  \<open>n\<close>, and a \<open>ValueError\<close> when \<open>n\<close> is not below \<open>N\<close>.
\<close>

type_synonym ket_vec = "complex list"

definition ket :: "nat \<Rightarrow> nat \<Rightarrow> error + ket_vec" where
  "ket n N = (if n < N then Inr ((replicate N 0)[n := 1]) else Inl ValueError)"

text \<open>
  In \<open>attack\<close> the operator \<open>tensor([ket([0], M).dag() if g == i else qeye(M) for g in
  range(n)])\<close> is the Kronecker product of \<open>n\<close> factors, the bra of the empty mode at
  place \<open>i\<close> and identities elsewhere. Applied to a column of \<open>M ^ n\<close> amplitudes it
  keeps, in order, the amplitudes whose index has digit 0 at place \<open>i\<close> in base \<open>M\<close>
  (place 0 the most significant). The product is refused with a \<open>TypeError\<close> when the
  column has another length. \<open>norm_l2\<close> is \<open>Qobj.norm\<close> of a vector.
\<close>

definition mode_digit :: "nat \<Rightarrow> nat \<Rightarrow> nat \<Rightarrow> nat \<Rightarrow> nat" where
  "mode_digit M n i k = (k div M ^ (n - Suc i)) mod M"

definition absent_part :: "nat \<Rightarrow> nat \<Rightarrow> nat \<Rightarrow> ket_vec \<Rightarrow> ket_vec" where
  "absent_part M n i psi =
     map (\<lambda>k. psi ! k) (filter (\<lambda>k. mode_digit M n i k = 0) [0..<length psi])"

definition norm_l2 :: "ket_vec \<Rightarrow> real" where
  "norm_l2 v = sqrt (sum_list (map (\<lambda>c. (cmod c)\<^sup>2) v))"

definition p_not_here :: "nat \<Rightarrow> nat \<Rightarrow> nat \<Rightarrow> ket_vec \<Rightarrow> error + real" where
  "p_not_here M n i psi =
     (case ket 0 M of
        Inl e \<Rightarrow> Inl e
      | Inr _ \<Rightarrow>
          if length psi = M ^ n then Inr (norm_l2 (absent_part M n i psi))
          else Inl TypeError)"

section \<open>QGhost\<close>

record 'q qghost = ghost +
  quantum_state :: 'q
  visible_parts :: "ghost list"
  splitters :: "ghost_splitter list"

definition add_visible_ghost :: "vec2 \<Rightarrow> vec2 option \<Rightarrow> 'q qghost \<Rightarrow> 'q qghost" where
  "add_visible_ghost start_position lm s =
     s\<lparr>visible_parts := visible_parts s @ [Ghost_init start_position lm]\<rparr>"

definition QGhost_init ::
  "settings \<Rightarrow> vec2 \<Rightarrow> ghost_splitter list \<Rightarrow> error + ket_vec qghost" where
  "QGhost_init cfg pos spl =
     (let g = Ghost_init pos None
      in case ket 1 (MAX_GHOSTS_PER_STATE cfg) of
           Inl e \<Rightarrow> Inl e
         | Inr q \<Rightarrow>
             Inr (add_visible_ghost pos None
                    \<lparr>position = position g, last_move = last_move g,
                     quantum_state = q, visible_parts = [], splitters = spl\<rparr>))"

subsection \<open>attack\<close>

text \<open>
  The loop over \<open>enumerate(self.visible_parts)\<close> that accumulates \<open>attack_prob\<close>; an
  exception of the product ends it.
\<close>

fun attack_prob_loop ::
  "settings \<Rightarrow> 'q utils \<Rightarrow> vec2 \<Rightarrow> nat \<Rightarrow> ket_vec \<Rightarrow> (nat \<times> ghost) list \<Rightarrow> real \<Rightarrow> error + real" where
  "attack_prob_loop cfg ut ppos n psi [] attack_prob = Inr attack_prob"
| "attack_prob_loop cfg ut ppos n psi ((i, g) # rest) attack_prob =
     (if is_in_attack_radius ut ppos (position g) (GHOST_ATTACK_RADIUS cfg) then
        (case p_not_here (MAX_GHOSTS_PER_STATE cfg) n i psi of
           Inl e \<Rightarrow> Inl e
         | Inr p \<Rightarrow> attack_prob_loop cfg ut ppos n psi rest (attack_prob + (1 - p)))
      else attack_prob_loop cfg ut ppos n psi rest attack_prob)"

text \<open>
  \<open>QGhost.attack\<close>: \<open>r1\<close> and \<open>r2\<close> are the two draws of \<open>np.random.random()\<close>; the
  second component of the result counts the calls of \<open>play_attack_sound\<close>.
\<close>

definition attack ::
  "settings \<Rightarrow> 'q utils \<Rightarrow> real \<Rightarrow> real \<Rightarrow> ket_vec qghost \<Rightarrow> player \<times> nat \<Rightarrow> error + player \<times> nat" where
  "attack cfg ut r1 r2 s ps =
     (case ps of (pl, sounds) \<Rightarrow>
        if r1 \<le> PROB_GHOST_ATTACK cfg then
          (case attack_prob_loop cfg ut (position pl) (length (visible_parts s))
                  (quantum_state s) (enumerate 0 (visible_parts s)) 0 of
             Inl e \<Rightarrow> Inl e
           | Inr attack_prob \<Rightarrow>
               if r2 \<le> attack_prob then Inr (pl\<lparr>health := health pl - 1\<rparr>, Suc sounds)
               else Inr (pl, sounds))
        else Inr (pl, sounds))"

subsection \<open>interact\_with\_splitter\<close>

text \<open>
  \<open>np.allclose(a, b, rtol)\<close> with the default absolute tolerance \<open>1e-8\<close>, on the two
  coordinates.
\<close>

definition allclose :: "vec2 \<Rightarrow> vec2 \<Rightarrow> real \<Rightarrow> bool" where
  "allclose a b rtol =
     (\<bar>fst a - fst b\<bar> \<le> 1 / 10 ^ 8 + rtol * \<bar>fst b\<bar> \<and>
      \<bar>snd a - snd b\<bar> \<le> 1 / 10 ^ 8 + rtol * \<bar>snd b\<bar>)"

text \<open>
  The innermost loop, over \<open>enumerate(self.visible_parts[i:])\<close>; its state is the quantum
  state, the set \<open>seen\<close> and the flag \<open>is_coincidence\<close>.
\<close>

fun coincidence_loop ::
  "'q utils \<Rightarrow> ghost \<Rightarrow> string \<Rightarrow> nat \<Rightarrow> (nat \<times> ghost) list \<Rightarrow> 'q \<times> nat set \<times> bool
     \<Rightarrow> 'q \<times> nat set \<times> bool" where
  "coincidence_loop ut this_ghost t i [] acc = acc"
| "coincidence_loop ut this_ghost t i ((j, other_ghost) # rest) (q, seen, is_coincidence) =
     (if two_ghost_coming_from_different_sides_of_splitter ut this_ghost other_ghost t then
        coincidence_loop ut this_ghost t i rest
          (beam_splitter ut q i (Some j), seen \<union> {i, i + j}, True)
      else coincidence_loop ut this_ghost t i rest (q, seen, is_coincidence))"

text \<open>
  \<open>(-1) ** (splitter.splitterType == "45") * Vector2(last_move.y, last_move.x)\<close>.
\<close>

definition split_last_move :: "string \<Rightarrow> vec2 \<Rightarrow> vec2" where
  "split_last_move t lm =
     (if t = ''45'' then (- snd lm, - fst lm) else (snd lm, fst lm))"

text \<open>The body of the loop over \<open>enumerate(self.visible_parts[:])\<close>, for one entry.\<close>

definition process_part ::
  "'q utils \<Rightarrow> ghost_splitter \<Rightarrow> nat \<times> ghost \<Rightarrow> 'q qghost \<times> nat set \<Rightarrow> 'q qghost \<times> nat set" where
  "process_part ut sp ig st =
     (case ig of (i, this_ghost) \<Rightarrow> case st of (s, seen) \<Rightarrow>
        if i \<in> seen then (s, seen)
        else if allclose (position sp) (position this_ghost) (1 / 100) then
          (case coincidence_loop ut this_ghost (splitterType sp) i
                  (enumerate 0 (drop i (visible_parts s))) (quantum_state s, seen, False) of
             (q, seen', is_coincidence) \<Rightarrow>
               let s1 = s\<lparr>quantum_state := q\<rparr>
               in if \<not> is_coincidence then
                    let lm = split_last_move (splitterType sp) (last_move this_ghost);
                        s2 = add_visible_ghost (position this_ghost) (Some lm) s1
                    in (s2\<lparr>quantum_state := beam_splitter ut (quantum_state s2) i None\<rparr>, seen')
                  else (s1, seen'))
        else (s, seen))"

text \<open>
  One iteration of the loop over \<open>self.splitters\<close>: the parts are enumerated from the copy
  of \<open>visible_parts\<close> taken when the iteration starts.
\<close>

definition splitter_pass ::
  "'q utils \<Rightarrow> ghost_splitter \<Rightarrow> 'q qghost \<times> nat set \<Rightarrow> 'q qghost \<times> nat set" where
  "splitter_pass ut sp st =
     fold (process_part ut sp) (enumerate 0 (visible_parts (fst st))) st"

definition interact_scan :: "'q utils \<Rightarrow> 'q qghost \<Rightarrow> 'q qghost \<times> nat set" where
  "interact_scan ut s = fold (splitter_pass ut) (splitters s) (s, {})"

definition interact_with_splitter :: "'q utils \<Rightarrow> 'q qghost \<Rightarrow> 'q qghost" where
  "interact_with_splitter ut s = fst (interact_scan ut s)"

subsection \<open>update\<close>

definition update ::
  "settings \<Rightarrow> ket_vec utils \<Rightarrow> real \<Rightarrow> real \<Rightarrow> ket_vec qghost \<Rightarrow> player \<times> nat
     \<Rightarrow> error + ket_vec qghost \<times> player \<times> nat" where
  "update cfg ut r1 r2 s ps =
     (if length (visible_parts s) > MAX_GHOSTS_PER_STATE cfg then Inr (s, ps)
      else
        let s' = interact_with_splitter ut s
        in case attack cfg ut r1 r2 s' ps of
             Inl e \<Rightarrow> Inl e
           | Inr ps' \<Rightarrow> Inr (s', ps'))"

section \<open>Auxiliary definitions\<close>

text \<open>
  The offsets of a candidate list at which the coincidence test succeeds for the part
  \<open>g\<close> at a splitter of type \<open>t\<close>.
\<close>

definition coinciding :: "'q utils \<Rightarrow> ghost \<Rightarrow> string \<Rightarrow> (nat \<times> ghost) list \<Rightarrow> nat list" where
  "coinciding ut g t cands =
     map fst (filter (\<lambda>jo. two_ghost_coming_from_different_sides_of_splitter ut g (snd jo) t) cands)"

text \<open>
  Modelled from the spec: \<open>two_ghost_coming_from_different_sides_of_splitter\<close> is not
  part of the file. Section 4.2 gives the coincidence test as a pure function of the two
  last moves and the splitter type and names the complementary pairs: up and right for the
  diagonal splitter, up and down for the axis-aligned one, where up is the last move
  \<open>(0, 1)\<close>. The diagonal type is the string \<open>"45"\<close>. Only these pairs are taken
  as complementary. The instance is used at concrete inputs only; every general theorem
  holds for an arbitrary test.
\<close>

definition complementary_inputs :: "ghost \<Rightarrow> ghost \<Rightarrow> string \<Rightarrow> bool" where
  "complementary_inputs a b t =
     (if t = ''45''
      then (last_move a = (0, 1) \<and> last_move b = (1, 0)) \<or>
           (last_move a = (1, 0) \<and> last_move b = (0, 1))
      else (last_move a = (0, 1) \<and> last_move b = (0, -1)) \<or>
           (last_move a = (0, -1) \<and> last_move b = (0, 1)))"

text \<open>
  Modelled from the spec: \<open>is_in_attack_radius\<close> is not part of the file. Section 4.3
  speaks of a visible part within a configured attack radius of the player; the instance
  compares the Euclidean distance of the two positions with the radius.
\<close>

definition within_radius :: "vec2 \<Rightarrow> vec2 \<Rightarrow> real \<Rightarrow> bool" where
  "within_radius a b r = ((fst a - fst b)\<^sup>2 + (snd a - snd b)\<^sup>2 \<le> r\<^sup>2)"

text \<open>
  Two instances of the helpers for concrete runs. In \<open>recording_utils\<close> the quantum
  state is the list of the calls of \<open>beam_splitter\<close> made so far, each with its index
  and its optional second argument, so that a run shows which transforms were requested.
  In \<open>passive_utils\<close> the state is a ket that \<open>beam_splitter\<close> hands back as it is;
  it is used only where the run never reads a transformed state.
\<close>

definition recording_utils :: "(nat \<times> nat option) list utils" where
  "recording_utils =
     \<lparr>two_ghost_coming_from_different_sides_of_splitter = complementary_inputs,
      beam_splitter = (\<lambda>q i j. q @ [(i, j)]),
      is_in_attack_radius = within_radius\<rparr>"

definition passive_utils :: "ket_vec utils" where
  "passive_utils =
     \<lparr>two_ghost_coming_from_different_sides_of_splitter = complementary_inputs,
      beam_splitter = (\<lambda>q i j. q),
      is_in_attack_radius = within_radius\<rparr>"

section \<open>The loops of interact\_with\_splitter\<close>

text \<open>
  The innermost loop applies the two-index transform at the offsets where the test
  succeeds, in order, and marks the part and each such candidate.
\<close>

lemma coinciding_Nil: "coinciding ut g t [] = []"
  by (simp add: coinciding_def)

lemma coinciding_Cons:
  "coinciding ut g t ((j, other) # cands) =
     (if two_ghost_coming_from_different_sides_of_splitter ut g other t
      then j # coinciding ut g t cands else coinciding ut g t cands)"
  by (simp add: coinciding_def)

lemma coincidence_loop_eq:
  "coincidence_loop ut g t i cands (q, seen, ic) =
     (fold (\<lambda>j q. beam_splitter ut q i (Some j)) (coinciding ut g t cands) q,
      seen \<union> (\<Union>j\<in>set (coinciding ut g t cands). {i, i + j}),
      ic \<or> coinciding ut g t cands \<noteq> [])"
proof (induction cands arbitrary: q seen ic)
  case Nil
  show ?case by (simp add: coinciding_Nil)
next
  case (Cons a cands)
  obtain j other where a: "a = (j, other)" by (cases a)
  show ?case
  proof (cases "two_ghost_coming_from_different_sides_of_splitter ut g other t")
    case True
    have "seen \<union> {i, i + j} \<union> (\<Union>j\<in>set (coinciding ut g t cands). {i, i + j}) =
          seen \<union> (\<Union>j\<in>set (j # coinciding ut g t cands). {i, i + j})"
      by auto
    with True show ?thesis
      by (simp add: a coinciding_Cons Cons.IH)
  next
    case False
    then show ?thesis
      by (simp add: a coinciding_Cons Cons.IH)
  qed
qed

lemma enumerate_map_nth: "enumerate 0 xs = map (\<lambda>j. (j, xs ! j)) [0..<length xs]"
  by (rule nth_equalityI) (simp_all add: nth_enumerate_eq)

lemma coinciding_enumerate:
  "coinciding ut g t (enumerate 0 xs) =
     filter (\<lambda>j. two_ghost_coming_from_different_sides_of_splitter ut g (xs ! j) t) [0..<length xs]"
  by (simp add: coinciding_def enumerate_map_nth filter_map o_def)

text \<open>The three outcomes of the loop body: skip, split, recombine.\<close>

lemma process_part_eq:
  "process_part ut sp (i, g) (s, seen) =
     (if i \<in> seen \<or> \<not> allclose (position sp) (position g) (1 / 100) then (s, seen)
      else if coinciding ut g (splitterType sp) (enumerate 0 (drop i (visible_parts s))) = [] then
        (s\<lparr>quantum_state := beam_splitter ut (quantum_state s) i None,
           visible_parts := visible_parts s @
             [Ghost_init (position g) (Some (split_last_move (splitterType sp) (last_move g)))]\<rparr>,
         seen)
      else
        (s\<lparr>quantum_state :=
             fold (\<lambda>j q. beam_splitter ut q i (Some j))
               (coinciding ut g (splitterType sp) (enumerate 0 (drop i (visible_parts s))))
               (quantum_state s)\<rparr>,
         seen \<union> (\<Union>j\<in>set (coinciding ut g (splitterType sp)
                                 (enumerate 0 (drop i (visible_parts s)))). {i, i + j})))"
  by (simp add: process_part_def coincidence_loop_eq add_visible_ghost_def Let_def)

lemma coinciding_drop:
  "coinciding ut g t (enumerate 0 (drop i xs)) =
     filter (\<lambda>j. two_ghost_coming_from_different_sides_of_splitter ut g (xs ! (i + j)) t)
       [0..<length xs - i]"
proof -
  have "filter (\<lambda>j. two_ghost_coming_from_different_sides_of_splitter ut g (drop i xs ! j) t)
          [0..<length xs - i] =
        filter (\<lambda>j. two_ghost_coming_from_different_sides_of_splitter ut g (xs ! (i + j)) t)
          [0..<length xs - i]"
    by (rule filter_cong) auto
  then show ?thesis
    by (simp add: coinciding_enumerate)
qed

lemma coinciding_drop_empty:
  "coinciding ut g t (enumerate 0 (drop i xs)) = [] \<longleftrightarrow>
     (\<forall>j. i + j < length xs \<longrightarrow> \<not> two_ghost_coming_from_different_sides_of_splitter ut g (xs ! (i + j)) t)"
  by (auto simp: coinciding_drop filter_empty_conv)

text \<open>No part is ever removed, and each entry of the copy adds at most one part.\<close>

lemma process_part_parts:
  "visible_parts (fst (process_part ut sp ig st)) = visible_parts (fst st) \<or>
   (\<exists>g. visible_parts (fst (process_part ut sp ig st)) = visible_parts (fst st) @ [g])"
  by (cases ig; cases st) (simp add: process_part_eq)

lemma fold_process_part_parts:
  "prefix (visible_parts (fst st)) (visible_parts (fst (fold (process_part ut sp) xs st))) \<and>
   length (visible_parts (fst (fold (process_part ut sp) xs st))) \<le>
     length (visible_parts (fst st)) + length xs"
proof (induction xs arbitrary: st)
  case Nil
  show ?case by simp
next
  case (Cons x xs)
  let ?st1 = "process_part ut sp x st"
  from process_part_parts [of ut sp x st]
  have p: "prefix (visible_parts (fst st)) (visible_parts (fst ?st1))"
    and l: "length (visible_parts (fst ?st1)) \<le> Suc (length (visible_parts (fst st)))"
    by auto
  from Cons.IH [of ?st1] p l show ?case
    by (auto intro: prefix_order.trans)
qed

lemma splitter_pass_parts:
  "prefix (visible_parts (fst st)) (visible_parts (fst (splitter_pass ut sp st))) \<and>
   length (visible_parts (fst (splitter_pass ut sp st))) \<le> 2 * length (visible_parts (fst st))"
  using fold_process_part_parts [of st ut sp "enumerate 0 (visible_parts (fst st))"]
  by (simp add: splitter_pass_def)

lemma fold_splitter_pass_parts:
  "prefix (visible_parts (fst st)) (visible_parts (fst (fold (splitter_pass ut) sps st))) \<and>
   length (visible_parts (fst (fold (splitter_pass ut) sps st))) \<le>
     length (visible_parts (fst st)) * 2 ^ length sps"
proof (induction sps arbitrary: st)
  case Nil
  show ?case by simp
next
  case (Cons sp sps)
  let ?st1 = "splitter_pass ut sp st"
  from splitter_pass_parts [of st ut sp]
  have p: "prefix (visible_parts (fst st)) (visible_parts (fst ?st1))"
    and l: "length (visible_parts (fst ?st1)) \<le> 2 * length (visible_parts (fst st))"
    by auto
  have a: "length (visible_parts (fst (fold (splitter_pass ut) sps ?st1))) \<le>
      length (visible_parts (fst ?st1)) * 2 ^ length sps"
    using Cons.IH [of ?st1] by simp
  have b: "length (visible_parts (fst ?st1)) * 2 ^ length sps \<le>
      (2 * length (visible_parts (fst st))) * 2 ^ length sps"
    using l by (rule mult_le_mono1)
  have c: "(2 * length (visible_parts (fst st))) * 2 ^ length sps =
      length (visible_parts (fst st)) * 2 ^ length (sp # sps)"
    by simp
  from a b c
  have "length (visible_parts (fst (fold (splitter_pass ut) sps ?st1))) \<le>
      length (visible_parts (fst st)) * 2 ^ length (sp # sps)"
    by linarith
  moreover from Cons.IH [of ?st1] p
  have "prefix (visible_parts (fst st))
          (visible_parts (fst (fold (splitter_pass ut) sps ?st1)))"
    by (auto intro: prefix_order.trans)
  ultimately show ?case by simp
qed

lemma interact_parts:
  "prefix (visible_parts s) (visible_parts (interact_with_splitter ut s)) \<and>
   length (visible_parts (interact_with_splitter ut s)) \<le>
     length (visible_parts s) * 2 ^ length (splitters s)"
  using fold_splitter_pass_parts [of "(s, {})" ut "splitters s"]
  by (simp add: interact_with_splitter_def interact_scan_def)

text \<open>
  The list only grows at its end, so the part enumerated at index \<open>i\<close> from the copy
  is the part at index \<open>i\<close> of the list at the moment it is processed.
\<close>

lemma fold_process_part_current:
  "prefix (ys @ xs) (visible_parts (fst st)) \<Longrightarrow>
   fold (process_part ut sp) (enumerate (length ys) xs) st =
   fold (\<lambda>i st'. process_part ut sp (i, visible_parts (fst st') ! i) st')
     [length ys..<length ys + length xs] st"
proof (induction xs arbitrary: ys st)
  case Nil
  show ?case by simp
next
  case (Cons x xs)
  let ?st1 = "process_part ut sp (length ys, x) st"
  from Cons.prems have x: "visible_parts (fst st) ! length ys = x"
    by (auto simp: prefix_def nth_append)
  from Cons.prems have "prefix ((ys @ [x]) @ xs) (visible_parts (fst st))"
    by simp
  moreover have "prefix (visible_parts (fst st)) (visible_parts (fst ?st1))"
    using fold_process_part_parts [of st ut sp "[(length ys, x)]"] by simp
  ultimately have p: "prefix ((ys @ [x]) @ xs) (visible_parts (fst ?st1))"
    by (rule prefix_order.trans)
  have e: "[length ys..<length ys + length (x # xs)] =
      length ys # [length (ys @ [x])..<length (ys @ [x]) + length xs]"
    by (subst upt_rec) simp
  have "fold (process_part ut sp) (enumerate (length ys) (x # xs)) st =
        fold (process_part ut sp) (enumerate (length (ys @ [x])) xs) ?st1"
    by simp
  also have "\<dots> = fold (\<lambda>i st'. process_part ut sp (i, visible_parts (fst st') ! i) st')
     [length (ys @ [x])..<length (ys @ [x]) + length xs] ?st1"
    using p by (rule Cons.IH)
  also have "\<dots> = fold (\<lambda>i st'. process_part ut sp (i, visible_parts (fst st') ! i) st')
     [length ys..<length ys + length (x # xs)] st"
    by (simp only: e fold_Cons o_apply x)
  finally show ?case .
qed

lemma splitter_pass_current:
  "splitter_pass ut sp st =
   fold (\<lambda>i st'. process_part ut sp (i, visible_parts (fst st') ! i) st')
     [0..<length (visible_parts (fst st))] st"
  using fold_process_part_current [of "[]" "visible_parts (fst st)" st ut sp]
  by (simp add: splitter_pass_def)

lemma split_last_move_nonzero: "lm \<noteq> (0, 0) \<Longrightarrow> split_last_move t lm \<noteq> (0, 0)"
  by (cases lm) (auto simp: split_last_move_def)

lemma process_part_split:
  assumes "i < length (visible_parts s)" and "i \<notin> seen"
    and "allclose (position sp) (position (visible_parts s ! i)) (1 / 100)"
    and "\<forall>j. i + j < length (visible_parts s) \<longrightarrow>
           \<not> two_ghost_coming_from_different_sides_of_splitter ut (visible_parts s ! i)
               (visible_parts s ! (i + j)) (splitterType sp)"
  shows "process_part ut sp (i, visible_parts s ! i) (s, seen) =
      (s\<lparr>quantum_state := beam_splitter ut (quantum_state s) i None,
         visible_parts := visible_parts s @
           [Ghost_init (position (visible_parts s ! i))
              (Some (split_last_move (splitterType sp) (last_move (visible_parts s ! i))))]\<rparr>,
       seen)"
  using assms by (simp add: process_part_eq coinciding_drop_empty)

lemma set_coinciding_drop:
  "set (coinciding ut g t (enumerate 0 (drop i xs))) =
     {j. i + j < length xs \<and> two_ghost_coming_from_different_sides_of_splitter ut g (xs ! (i + j)) t}"
  by (auto simp: coinciding_drop)

lemma process_part_merge:
  assumes "i \<notin> seen" and "allclose (position sp) (position g) (1 / 100)"
    and "coinciding ut g (splitterType sp) (enumerate 0 (drop i (visible_parts s))) \<noteq> []"
  shows "process_part ut sp (i, g) (s, seen) =
      (s\<lparr>quantum_state :=
           fold (\<lambda>j q. beam_splitter ut q i (Some j))
             (coinciding ut g (splitterType sp) (enumerate 0 (drop i (visible_parts s))))
             (quantum_state s)\<rparr>,
       seen \<union> (\<Union>j\<in>set (coinciding ut g (splitterType sp)
                               (enumerate 0 (drop i (visible_parts s)))). {i, i + j}))"
  using assms by (simp add: process_part_eq)

text \<open>No part has the zero vector as its last move.\<close>

lemma Ghost_init_last_move: "last_move (Ghost_init p lm) \<noteq> (0, 0)"
  by (cases lm) (simp_all add: Ghost_init_def)

lemma process_part_new_part:
  "visible_parts (fst (process_part ut sp ig st)) = visible_parts (fst st) \<or>
   (\<exists>g. last_move g \<noteq> (0, 0) \<and>
      visible_parts (fst (process_part ut sp ig st)) = visible_parts (fst st) @ [g])"
  by (cases ig; cases st) (simp add: process_part_eq Ghost_init_last_move)

lemma process_part_moving:
  assumes "\<forall>g\<in>set (visible_parts (fst st)). last_move g \<noteq> (0, 0)"
  shows "\<forall>g\<in>set (visible_parts (fst (process_part ut sp ig st))). last_move g \<noteq> (0, 0)"
  using process_part_new_part [of ut sp ig st] assms
  by auto

lemma fold_process_part_moving:
  "\<forall>g\<in>set (visible_parts (fst st)). last_move g \<noteq> (0, 0) \<Longrightarrow>
   \<forall>g\<in>set (visible_parts (fst (fold (process_part ut sp) xs st))). last_move g \<noteq> (0, 0)"
proof (induction xs arbitrary: st)
  case Nil
  then show ?case by simp
next
  case (Cons x xs)
  from Cons.prems have "\<forall>g\<in>set (visible_parts (fst (process_part ut sp x st))). last_move g \<noteq> (0, 0)"
    by (rule process_part_moving)
  then show ?case
    using Cons.IH [of "process_part ut sp x st"] by simp
qed

lemma fold_splitter_pass_moving:
  "\<forall>g\<in>set (visible_parts (fst st)). last_move g \<noteq> (0, 0) \<Longrightarrow>
   \<forall>g\<in>set (visible_parts (fst (fold (splitter_pass ut) sps st))). last_move g \<noteq> (0, 0)"
proof (induction sps arbitrary: st)
  case Nil
  then show ?case by simp
next
  case (Cons sp sps)
  from Cons.prems have "\<forall>g\<in>set (visible_parts (fst (splitter_pass ut sp st))). last_move g \<noteq> (0, 0)"
    unfolding splitter_pass_def by (rule fold_process_part_moving)
  then show ?case
    using Cons.IH [of "splitter_pass ut sp st"] by simp
qed

lemma interact_moving:
  "\<forall>g\<in>set (visible_parts s). last_move g \<noteq> (0, 0) \<Longrightarrow>
   \<forall>g\<in>set (visible_parts (interact_with_splitter ut s)). last_move g \<noteq> (0, 0)"
  using fold_splitter_pass_moving [of "(s, {})" ut "splitters s"]
  by (simp add: interact_with_splitter_def interact_scan_def)

section \<open>The loop of attack and the initial state\<close>

lemma p_not_here_ok:
  "0 < M \<Longrightarrow> length psi = M ^ n \<Longrightarrow> p_not_here M n i psi = Inr (norm_l2 (absent_part M n i psi))"
  by (simp add: p_not_here_def ket_def)

lemma attack_prob_loop_eq:
  assumes "0 < MAX_GHOSTS_PER_STATE cfg" and "length psi = MAX_GHOSTS_PER_STATE cfg ^ n"
  shows "attack_prob_loop cfg ut ppos n psi cands acc =
     Inr (acc + (\<Sum>ig\<leftarrow>filter (\<lambda>ig. is_in_attack_radius ut ppos (position (snd ig)) (GHOST_ATTACK_RADIUS cfg)) cands.
                  1 - norm_l2 (absent_part (MAX_GHOSTS_PER_STATE cfg) n (fst ig) psi)))"
proof (induction cands arbitrary: acc)
  case Nil
  show ?case by simp
next
  case (Cons a cands)
  obtain i g where a: "a = (i, g)" by (cases a)
  show ?case
    by (simp add: a Cons.IH p_not_here_ok [OF assms] add.assoc)
qed

lemma attack_prob_loop_enumerate:
  assumes "0 < MAX_GHOSTS_PER_STATE cfg" and "length psi = MAX_GHOSTS_PER_STATE cfg ^ n"
  shows "attack_prob_loop cfg ut ppos n psi (enumerate 0 xs) 0 =
     Inr (\<Sum>i\<leftarrow>filter (\<lambda>i. is_in_attack_radius ut ppos (position (xs ! i)) (GHOST_ATTACK_RADIUS cfg))
                  [0..<length xs].
            1 - norm_l2 (absent_part (MAX_GHOSTS_PER_STATE cfg) n i psi))"
  by (simp add: attack_prob_loop_eq [OF assms] enumerate_map_nth filter_map o_def)

lemma attack_at_most_once:
  "attack cfg ut r1 r2 s (pl, sounds) = Inr res \<Longrightarrow>
     res = (pl, sounds) \<or> res = (pl\<lparr>health := health pl - 1\<rparr>, Suc sounds)"
  by (auto simp: attack_def split: if_splits sum.splits)

lemma filter_mod_zero: "0 < M \<Longrightarrow> filter (\<lambda>k. k mod M = 0) [0..<M] = [0]"
proof -
  assume m: "0 < M"
  have "filter (\<lambda>k. k mod M = 0) [0..<M] = filter (\<lambda>k. k = 0) [0..<M]"
    by (rule filter_cong) auto
  also have "\<dots> = [0]"
    using m by (induction M) auto
  finally show ?thesis .
qed

lemma absent_part_single:
  "0 < M \<Longrightarrow> length psi = M \<Longrightarrow> absent_part M (Suc 0) 0 psi = [psi ! 0]"
  by (simp add: absent_part_def mode_digit_def filter_mod_zero)

lemma sum_list_unit_update:
  "k < N \<Longrightarrow> sum_list (map f ((replicate N (0::complex))[k := 1])) = f 1 + real (N - 1) * f (0::complex)"
  for f :: "complex \<Rightarrow> real"
proof (induction N arbitrary: k)
  case 0
  then show ?case by simp
next
  case (Suc N)
  show ?case
  proof (cases k)
    case 0
    then show ?thesis by (simp add: sum_list_replicate)
  next
    case (Suc k')
    with Suc.prems have "k' < N" by simp
    from Suc.IH [OF this] Suc \<open>k' < N\<close> show ?thesis
      by (simp add: algebra_simps of_nat_diff)
  qed
qed

lemma norm_l2_ket: "k < N \<Longrightarrow> norm_l2 ((replicate N 0)[k := 1]) = 1"
  by (simp add: norm_l2_def sum_list_unit_update)

lemma p_not_here_ket:
  assumes "1 < M"
  shows "p_not_here M 1 0 ((replicate M 0)[1 := 1]) = Inr 0"
proof -
  let ?q = "(replicate M (0::complex))[1 := 1]"
  from assms have m: "0 < M" by simp
  have "absent_part M (Suc 0) 0 ?q = [?q ! 0]"
    using m by (intro absent_part_single) simp_all
  also have "\<dots> = [0]"
    using assms by simp
  finally have "norm_l2 (absent_part M 1 0 ?q) = 0"
    by (simp add: norm_l2_def)
  with m show ?thesis
    by (simp add: p_not_here_ok)
qed

section \<open>The properties\<close>

subsection \<open>Recombination at a splitter\<close>

text \<open>
  C2, as the code has it. When the coincidence test succeeds for the part at index \<open>i\<close>,
  which lies on the splitter and is not marked seen, with the part at index \<open>i + j\<close>,
  processing part \<open>i\<close> leaves \<open>visible_parts\<close> as it is: neither part is removed and
  no part is spawned. The quantum state is the result of one or more calls of
  \<open>beam_splitter\<close> with two indices, the first of them \<open>i\<close>; both \<open>i\<close> and
  \<open>i + j\<close> are marked seen and no earlier mark is lost. Over a whole scan the parts
  present at the start stay in place, as a prefix of the final list.
\<close>

theorem coincidence_keeps_both_parts:
  "(i < length (visible_parts s) \<and> i \<notin> seen \<and>
    allclose (position sp) (position (visible_parts s ! i)) (1 / 100) \<and>
    i + j < length (visible_parts s) \<and>
    two_ghost_coming_from_different_sides_of_splitter ut (visible_parts s ! i)
      (visible_parts s ! (i + j)) (splitterType sp) \<longrightarrow>
    visible_parts (fst (process_part ut sp (i, visible_parts s ! i) (s, seen))) = visible_parts s \<and>
    (\<exists>js. js \<noteq> [] \<and>
       quantum_state (fst (process_part ut sp (i, visible_parts s ! i) (s, seen))) =
         fold (\<lambda>j q. beam_splitter ut q i (Some j)) js (quantum_state s)) \<and>
    i \<in> snd (process_part ut sp (i, visible_parts s ! i) (s, seen)) \<and>
    i + j \<in> snd (process_part ut sp (i, visible_parts s ! i) (s, seen)) \<and>
    seen \<subseteq> snd (process_part ut sp (i, visible_parts s ! i) (s, seen))) \<and>
   prefix (visible_parts s) (visible_parts (interact_with_splitter ut s))"
proof (intro conjI impI)
  let ?g = "visible_parts s ! i"
  let ?js = "coinciding ut ?g (splitterType sp) (enumerate 0 (drop i (visible_parts s)))"
  assume h: "i < length (visible_parts s) \<and> i \<notin> seen \<and>
    allclose (position sp) (position ?g) (1 / 100) \<and>
    i + j < length (visible_parts s) \<and>
    two_ghost_coming_from_different_sides_of_splitter ut ?g
      (visible_parts s ! (i + j)) (splitterType sp)"
  then have j: "j \<in> set ?js"
    by (simp add: set_coinciding_drop)
  then have ne: "?js \<noteq> []"
    by auto
  from h ne have eq: "process_part ut sp (i, ?g) (s, seen) =
      (s\<lparr>quantum_state := fold (\<lambda>j q. beam_splitter ut q i (Some j)) ?js (quantum_state s)\<rparr>,
       seen \<union> (\<Union>j\<in>set ?js. {i, i + j}))"
    by (intro process_part_merge) simp_all
  show "visible_parts (fst (process_part ut sp (i, ?g) (s, seen))) = visible_parts s"
    by (simp add: eq)
  show "\<exists>js. js \<noteq> [] \<and>
       quantum_state (fst (process_part ut sp (i, ?g) (s, seen))) =
         fold (\<lambda>j q. beam_splitter ut q i (Some j)) js (quantum_state s)"
    using ne by (intro exI [of _ ?js]) (simp add: eq)
  show "i \<in> snd (process_part ut sp (i, ?g) (s, seen))"
    using j unfolding eq by auto
  show "i + j \<in> snd (process_part ut sp (i, ?g) (s, seen))"
    using j unfolding eq by auto
  show "seen \<subseteq> snd (process_part ut sp (i, ?g) (s, seen))"
    unfolding eq by auto
next
  show "prefix (visible_parts s) (visible_parts (interact_with_splitter ut s))"
    by (simp add: interact_parts)
qed

theorem coincidence_keeps_both_parts_witness:
  "(0 < length [\<lparr>position = (0, 0), last_move = (0, 1)\<rparr>, \<lparr>position = (0, 0), last_move = (1, 0)\<rparr>] \<and>
    0 \<notin> ({} :: nat set) \<and> allclose (0, 0) (0, 0) (1 / 100) \<and>
    0 + 1 < length [\<lparr>position = (0, 0), last_move = (0, 1)\<rparr>, \<lparr>position = (0, 0), last_move = (1, 0)\<rparr>] \<and>
    complementary_inputs \<lparr>position = (0, 0), last_move = (0, 1)\<rparr>
      \<lparr>position = (0, 0), last_move = (1, 0)\<rparr> ''45'') \<and>
   process_part recording_utils \<lparr>position = (0, 0), splitterType = ''45''\<rparr>
     (0, \<lparr>position = (0, 0), last_move = (0, 1)\<rparr>)
     (\<lparr>position = (0, 0), last_move = (-1, 0), quantum_state = [],
       visible_parts = [\<lparr>position = (0, 0), last_move = (0, 1)\<rparr>,
                        \<lparr>position = (0, 0), last_move = (1, 0)\<rparr>],
       splitters = [\<lparr>position = (0, 0), splitterType = ''45''\<rparr>]\<rparr>, {}) =
     (\<lparr>position = (0, 0), last_move = (-1, 0), quantum_state = [(0, Some 1)],
       visible_parts = [\<lparr>position = (0, 0), last_move = (0, 1)\<rparr>,
                        \<lparr>position = (0, 0), last_move = (1, 0)\<rparr>],
       splitters = [\<lparr>position = (0, 0), splitterType = ''45''\<rparr>]\<rparr>, {0, 1})"
  using coincidence_keeps_both_parts
    [where i = 0 and j = 1 and seen = "{}" and ut = recording_utils
       and sp = "\<lparr>position = (0, 0), splitterType = ''45''\<rparr>"
       and s = "\<lparr>position = (0, 0), last_move = (-1, 0), quantum_state = [],
                 visible_parts = [\<lparr>position = (0, 0), last_move = (0, 1)\<rparr>,
                                  \<lparr>position = (0, 0), last_move = (1, 0)\<rparr>],
                 splitters = [\<lparr>position = (0, 0), splitterType = ''45''\<rparr>]\<rparr>"]
  by (simp add: process_part_def recording_utils_def complementary_inputs_def allclose_def)

text \<open>
  Two parts on a \<open>"45"\<close> splitter, one with last move up and one with last move right,
  pass the coincidence test. After the scan both are still in \<open>visible_parts\<close>; the one
  transform requested is the two-index call for part 0, and both indices are marked.
\<close>

theorem coincidence_keeps_both_parts_counterexample:
  "complementary_inputs \<lparr>position = (0, 0), last_move = (0, 1)\<rparr>
      \<lparr>position = (0, 0), last_move = (1, 0)\<rparr> ''45'' \<and>
   interact_scan recording_utils
     \<lparr>position = (0, 0), last_move = (-1, 0), quantum_state = [],
      visible_parts = [\<lparr>position = (0, 0), last_move = (0, 1)\<rparr>,
                       \<lparr>position = (0, 0), last_move = (1, 0)\<rparr>],
      splitters = [\<lparr>position = (0, 0), splitterType = ''45''\<rparr>]\<rparr> =
     (\<lparr>position = (0, 0), last_move = (-1, 0), quantum_state = [(0, Some 1)],
       visible_parts = [\<lparr>position = (0, 0), last_move = (0, 1)\<rparr>,
                        \<lparr>position = (0, 0), last_move = (1, 0)\<rparr>],
       splitters = [\<lparr>position = (0, 0), splitterType = ''45''\<rparr>]\<rparr>, {0, 1})"
  by (simp add: interact_scan_def splitter_pass_def process_part_def recording_utils_def
      complementary_inputs_def allclose_def)

subsection \<open>Attack\<close>

text \<open>
  C3. When the first draw \<open>r1\<close> is at most \<open>PROB_GHOST_ATTACK\<close>, \<open>attack\<close> adds up,
  over the visible parts within the attack radius of the player, one minus the norm of the
  state to which the operator of the source has been applied (the bra of the empty mode at
  the place of the part, identities elsewhere). The sum is not clamped and is compared
  with the second draw \<open>r2\<close>: on success the health of the player goes down by exactly 1
  and the attack sound is played once; otherwise player and sound count stay as they are.
  The equation needs the ket to have the length the product expects. Whatever the state,
  a call that returns has either changed nothing or taken one health point with one sound.
\<close>

theorem attack_resolver:
  "(0 < MAX_GHOSTS_PER_STATE cfg \<and>
    length (quantum_state s) = MAX_GHOSTS_PER_STATE cfg ^ length (visible_parts s) \<longrightarrow>
    attack cfg ut r1 r2 s (pl, sounds) =
      Inr (if r1 \<le> PROB_GHOST_ATTACK cfg \<and>
              r2 \<le> (\<Sum>i\<leftarrow>filter (\<lambda>i. is_in_attack_radius ut (position pl)
                                      (position (visible_parts s ! i)) (GHOST_ATTACK_RADIUS cfg))
                              [0..<length (visible_parts s)].
                       1 - norm_l2 (absent_part (MAX_GHOSTS_PER_STATE cfg)
                                      (length (visible_parts s)) i (quantum_state s)))
           then (pl\<lparr>health := health pl - 1\<rparr>, Suc sounds)
           else (pl, sounds))) \<and>
   (\<forall>res. attack cfg ut r1 r2 s (pl, sounds) = Inr res \<longrightarrow>
      res = (pl, sounds) \<or> res = (pl\<lparr>health := health pl - 1\<rparr>, Suc sounds))"
proof (intro conjI impI allI)
  assume wf: "0 < MAX_GHOSTS_PER_STATE cfg \<and>
    length (quantum_state s) = MAX_GHOSTS_PER_STATE cfg ^ length (visible_parts s)"
  then have m: "0 < MAX_GHOSTS_PER_STATE cfg"
    and l: "length (quantum_state s) = MAX_GHOSTS_PER_STATE cfg ^ length (visible_parts s)"
    by simp_all
  show "attack cfg ut r1 r2 s (pl, sounds) =
      Inr (if r1 \<le> PROB_GHOST_ATTACK cfg \<and>
              r2 \<le> (\<Sum>i\<leftarrow>filter (\<lambda>i. is_in_attack_radius ut (position pl)
                                      (position (visible_parts s ! i)) (GHOST_ATTACK_RADIUS cfg))
                              [0..<length (visible_parts s)].
                       1 - norm_l2 (absent_part (MAX_GHOSTS_PER_STATE cfg)
                                      (length (visible_parts s)) i (quantum_state s)))
           then (pl\<lparr>health := health pl - 1\<rparr>, Suc sounds)
           else (pl, sounds))"
    by (simp add: attack_def attack_prob_loop_enumerate [OF m l])
next
  fix res
  assume "attack cfg ut r1 r2 s (pl, sounds) = Inr res"
  then show "res = (pl, sounds) \<or> res = (pl\<lparr>health := health pl - 1\<rparr>, Suc sounds)"
    by (rule attack_at_most_once)
qed

theorem attack_resolver_witness:
  "0 < MAX_GHOSTS_PER_STATE
         \<lparr>GHOST_SPEED = 1 / 2, MAX_GHOSTS_PER_STATE = 2, PROB_GHOST_ATTACK = 1 / 2, GHOST_ATTACK_RADIUS = 1\<rparr> \<and>
   length [0, 1 :: complex] = 2 ^ length [\<lparr>position = (3, 4), last_move = (-1, 0)\<rparr>] \<and>
   attack
     \<lparr>GHOST_SPEED = 1 / 2, MAX_GHOSTS_PER_STATE = 2, PROB_GHOST_ATTACK = 1 / 2, GHOST_ATTACK_RADIUS = 1\<rparr>
     passive_utils 0 0
     \<lparr>position = (3, 4), last_move = (-1, 0), quantum_state = [0, 1],
      visible_parts = [\<lparr>position = (3, 4), last_move = (-1, 0)\<rparr>], splitters = []\<rparr>
     (\<lparr>position = (3, 5), health = 3\<rparr>, 0) =
   Inr (\<lparr>position = (3, 5), health = 2\<rparr>, 1)"
  using attack_resolver
    [where cfg = "\<lparr>GHOST_SPEED = 1 / 2, MAX_GHOSTS_PER_STATE = 2, PROB_GHOST_ATTACK = 1 / 2, GHOST_ATTACK_RADIUS = 1\<rparr>"
       and s = "\<lparr>position = (3, 4), last_move = (-1, 0), quantum_state = [0, 1],
                 visible_parts = [\<lparr>position = (3, 4), last_move = (-1, 0)\<rparr>], splitters = []\<rparr>"
       and ut = passive_utils and ?r1.0 = 0 and ?r2.0 = 0
       and pl = "\<lparr>position = (3, 5), health = 3\<rparr>" and sounds = 0]
  by (simp add: passive_utils_def within_radius_def absent_part_def mode_digit_def norm_l2_def)

subsection \<open>Splitting at a splitter\<close>

text \<open>
  C4. For a visible part at index \<open>i\<close> that is not marked seen, lies on the splitter and
  fails the coincidence test against every entry of \<open>visible_parts[i:]\<close>, processing the
  part appends exactly one new part at the same position. Its last move is the last move
  of the part with the coordinates swapped, and negated for the splitter type \<open>"45"\<close>;
  \<open>beam_splitter\<close> is applied with the single index \<open>i\<close> and \<open>seen\<close> is unchanged.
  The scan processes index \<open>i\<close> with the part at that index
  (\<open>splitter_pass_current\<close>), and the last move of a part is never the zero vector
  (\<open>Ghost_init_last_move\<close>, \<open>interact_moving\<close>), so the constructor keeps the
  vector it is given. In particular
  one part with last move \<open>(0, 1)\<close> on a \<open>"45"\<close> splitter leaves two visible parts
  after the scan, the new one with last move \<open>(-1, 0)\<close>.
\<close>

theorem split_spawns_one_part:
  "(i < length (visible_parts s) \<and> i \<notin> seen \<and>
    allclose (position sp) (position (visible_parts s ! i)) (1 / 100) \<and>
    (\<forall>j. i + j < length (visible_parts s) \<longrightarrow>
       \<not> two_ghost_coming_from_different_sides_of_splitter ut (visible_parts s ! i)
           (visible_parts s ! (i + j)) (splitterType sp)) \<and>
    last_move (visible_parts s ! i) \<noteq> (0, 0) \<longrightarrow>
    process_part ut sp (i, visible_parts s ! i) (s, seen) =
      (s\<lparr>quantum_state := beam_splitter ut (quantum_state s) i None,
         visible_parts := visible_parts s @
           [\<lparr>position = position (visible_parts s ! i),
             last_move =
               (if splitterType sp = ''45''
                then (- snd (last_move (visible_parts s ! i)), - fst (last_move (visible_parts s ! i)))
                else (snd (last_move (visible_parts s ! i)), fst (last_move (visible_parts s ! i))))\<rparr>]\<rparr>,
       seen)) \<and>
   (visible_parts s = [g] \<and> splitters s = [sp] \<and> last_move g = (0, 1) \<and>
    splitterType sp = ''45'' \<and> allclose (position sp) (position g) (1 / 100) \<and>
    \<not> two_ghost_coming_from_different_sides_of_splitter ut g g ''45'' \<longrightarrow>
    visible_parts (interact_with_splitter ut s) = [g, \<lparr>position = position g, last_move = (-1, 0)\<rparr>] \<and>
    quantum_state (interact_with_splitter ut s) = beam_splitter ut (quantum_state s) 0 None)"
proof (intro conjI impI)
  assume h: "i < length (visible_parts s) \<and> i \<notin> seen \<and>
    allclose (position sp) (position (visible_parts s ! i)) (1 / 100) \<and>
    (\<forall>j. i + j < length (visible_parts s) \<longrightarrow>
       \<not> two_ghost_coming_from_different_sides_of_splitter ut (visible_parts s ! i)
           (visible_parts s ! (i + j)) (splitterType sp)) \<and>
    last_move (visible_parts s ! i) \<noteq> (0, 0)"
  then have nz: "split_last_move (splitterType sp) (last_move (visible_parts s ! i)) \<noteq> (0, 0)"
    by (simp add: split_last_move_nonzero)
  from h have "process_part ut sp (i, visible_parts s ! i) (s, seen) =
      (s\<lparr>quantum_state := beam_splitter ut (quantum_state s) i None,
         visible_parts := visible_parts s @
           [Ghost_init (position (visible_parts s ! i))
              (Some (split_last_move (splitterType sp) (last_move (visible_parts s ! i))))]\<rparr>,
       seen)"
    by (intro process_part_split) simp_all
  with nz show "process_part ut sp (i, visible_parts s ! i) (s, seen) =
      (s\<lparr>quantum_state := beam_splitter ut (quantum_state s) i None,
         visible_parts := visible_parts s @
           [\<lparr>position = position (visible_parts s ! i),
             last_move =
               (if splitterType sp = ''45''
                then (- snd (last_move (visible_parts s ! i)), - fst (last_move (visible_parts s ! i)))
                else (snd (last_move (visible_parts s ! i)), fst (last_move (visible_parts s ! i))))\<rparr>]\<rparr>,
       seen)"
    by (simp add: Ghost_init_def) (simp add: split_last_move_def)
next
  assume h: "visible_parts s = [g] \<and> splitters s = [sp] \<and> last_move g = (0, 1) \<and>
    splitterType sp = ''45'' \<and> allclose (position sp) (position g) (1 / 100) \<and>
    \<not> two_ghost_coming_from_different_sides_of_splitter ut g g ''45''"
  then have "interact_scan ut s = process_part ut sp (0, visible_parts s ! 0) (s, {})"
    by (simp add: interact_scan_def splitter_pass_def)
  also from h have "\<dots> =
      (s\<lparr>quantum_state := beam_splitter ut (quantum_state s) 0 None,
         visible_parts := visible_parts s @
           [Ghost_init (position (visible_parts s ! 0))
              (Some (split_last_move (splitterType sp) (last_move (visible_parts s ! 0))))]\<rparr>,
       {})"
    by (intro process_part_split) simp_all
  finally have scan: "interact_with_splitter ut s =
      s\<lparr>quantum_state := beam_splitter ut (quantum_state s) 0 None,
        visible_parts := visible_parts s @
           [Ghost_init (position (visible_parts s ! 0))
              (Some (split_last_move (splitterType sp) (last_move (visible_parts s ! 0))))]\<rparr>"
    by (simp add: interact_with_splitter_def)
  from h show "visible_parts (interact_with_splitter ut s) = [g, \<lparr>position = position g, last_move = (-1, 0)\<rparr>]"
    by (simp add: scan Ghost_init_def split_last_move_def)
  show "quantum_state (interact_with_splitter ut s) = beam_splitter ut (quantum_state s) 0 None"
    by (simp add: scan)
qed

theorem split_spawns_one_part_witness:
  "(0 < length [\<lparr>position = (2, 3), last_move = (0, 1)\<rparr>] \<and> 0 \<notin> ({} :: nat set) \<and>
    allclose (2, 3) (2, 3) (1 / 100) \<and>
    \<not> complementary_inputs \<lparr>position = (2, 3), last_move = (0, 1)\<rparr>
        \<lparr>position = (2, 3), last_move = (0, 1)\<rparr> ''45'' \<and>
    last_move \<lparr>position = (2, 3), last_move = (0, 1)\<rparr> \<noteq> (0, 0)) \<and>
   process_part recording_utils \<lparr>position = (2, 3), splitterType = ''45''\<rparr>
     (0, \<lparr>position = (2, 3), last_move = (0, 1)\<rparr>)
     (\<lparr>position = (2, 3), last_move = (-1, 0), quantum_state = [],
       visible_parts = [\<lparr>position = (2, 3), last_move = (0, 1)\<rparr>],
       splitters = [\<lparr>position = (2, 3), splitterType = ''45''\<rparr>]\<rparr>, {}) =
     (\<lparr>position = (2, 3), last_move = (-1, 0), quantum_state = [(0, None)],
       visible_parts = [\<lparr>position = (2, 3), last_move = (0, 1)\<rparr>,
                        \<lparr>position = (2, 3), last_move = (-1, 0)\<rparr>],
       splitters = [\<lparr>position = (2, 3), splitterType = ''45''\<rparr>]\<rparr>, {}) \<and>
   visible_parts (interact_with_splitter recording_utils
     \<lparr>position = (2, 3), last_move = (-1, 0), quantum_state = [],
       visible_parts = [\<lparr>position = (2, 3), last_move = (0, 1)\<rparr>],
       splitters = [\<lparr>position = (2, 3), splitterType = ''45''\<rparr>]\<rparr>) =
     [\<lparr>position = (2, 3), last_move = (0, 1)\<rparr>, \<lparr>position = (2, 3), last_move = (-1, 0)\<rparr>]"
  using split_spawns_one_part
    [where i = 0 and seen = "{}" and ut = recording_utils
       and sp = "\<lparr>position = (2, 3), splitterType = ''45''\<rparr>"
       and g = "\<lparr>position = (2, 3), last_move = (0, 1)\<rparr>"
       and s = "\<lparr>position = (2, 3), last_move = (-1, 0), quantum_state = [],
                 visible_parts = [\<lparr>position = (2, 3), last_move = (0, 1)\<rparr>],
                 splitters = [\<lparr>position = (2, 3), splitterType = ''45''\<rparr>]\<rparr>"]
  by (simp add: recording_utils_def complementary_inputs_def allclose_def)

subsection \<open>The capacity guard\<close>

text \<open>
  C5. When \<open>visible_parts\<close> is longer than \<open>MAX_GHOSTS_PER_STATE\<close> at the start of
  \<open>update\<close>, the call returns normally with the ghost, the player and the sound count
  unchanged: no splitter interaction and no attack take place.
\<close>

theorem update_capacity_guard:
  "MAX_GHOSTS_PER_STATE cfg < length (visible_parts s) \<Longrightarrow> update cfg ut r1 r2 s ps = Inr (s, ps)"
  by (simp add: update_def)

theorem update_capacity_guard_witness:
  "MAX_GHOSTS_PER_STATE
     \<lparr>GHOST_SPEED = 1 / 2, MAX_GHOSTS_PER_STATE = 2, PROB_GHOST_ATTACK = 1, GHOST_ATTACK_RADIUS = 1\<rparr>
     < length [\<lparr>position = (0, 0), last_move = (-1, 0)\<rparr>, \<lparr>position = (0, 0), last_move = (0, 1)\<rparr>,
               \<lparr>position = (0, 0), last_move = (1, 0)\<rparr>] \<and>
   update
     \<lparr>GHOST_SPEED = 1 / 2, MAX_GHOSTS_PER_STATE = 2, PROB_GHOST_ATTACK = 1, GHOST_ATTACK_RADIUS = 1\<rparr>
     passive_utils 0 0
     \<lparr>position = (0, 0), last_move = (-1, 0), quantum_state = [0, 1],
      visible_parts = [\<lparr>position = (0, 0), last_move = (-1, 0)\<rparr>, \<lparr>position = (0, 0), last_move = (0, 1)\<rparr>,
                       \<lparr>position = (0, 0), last_move = (1, 0)\<rparr>],
      splitters = [\<lparr>position = (0, 0), splitterType = ''45''\<rparr>]\<rparr>
     (\<lparr>position = (0, 0), health = 3\<rparr>, 0) =
   Inr (\<lparr>position = (0, 0), last_move = (-1, 0), quantum_state = [0, 1],
        visible_parts = [\<lparr>position = (0, 0), last_move = (-1, 0)\<rparr>, \<lparr>position = (0, 0), last_move = (0, 1)\<rparr>,
                         \<lparr>position = (0, 0), last_move = (1, 0)\<rparr>],
        splitters = [\<lparr>position = (0, 0), splitterType = ''45''\<rparr>]\<rparr>,
        \<lparr>position = (0, 0), health = 3\<rparr>, 0)"
  using update_capacity_guard
    [where cfg = "\<lparr>GHOST_SPEED = 1 / 2, MAX_GHOSTS_PER_STATE = 2, PROB_GHOST_ATTACK = 1, GHOST_ATTACK_RADIUS = 1\<rparr>"
       and ut = passive_utils and ?r1.0 = 0 and ?r2.0 = 0
       and s = "\<lparr>position = (0, 0), last_move = (-1, 0), quantum_state = [0, 1],
                 visible_parts = [\<lparr>position = (0, 0), last_move = (-1, 0)\<rparr>, \<lparr>position = (0, 0), last_move = (0, 1)\<rparr>,
                                  \<lparr>position = (0, 0), last_move = (1, 0)\<rparr>],
                 splitters = [\<lparr>position = (0, 0), splitterType = ''45''\<rparr>]\<rparr>"
       and ps = "(\<lparr>position = (0, 0), health = 3\<rparr>, 0)"]
  by simp

text \<open>
  C6, as the code has it. The length of \<open>visible_parts\<close> is compared with
  \<open>MAX_GHOSTS_PER_STATE\<close> only when \<open>update\<close> starts: a frame that starts above the
  maximum changes nothing. A frame that returns keeps the parts it started with as a
  prefix of the final list and at most doubles their number for each splitter. A split
  has no capacity condition: a part on a splitter with no coincidence adds one part
  whatever the length is.
\<close>

theorem capacity_guard_at_frame_start_only:
  "(MAX_GHOSTS_PER_STATE cfg < length (visible_parts s) \<longrightarrow>
      update cfg ut r1 r2 s ps = Inr (s, ps)) \<and>
   (\<forall>s' ps'. update cfg ut r1 r2 s ps = Inr (s', ps') \<longrightarrow>
      prefix (visible_parts s) (visible_parts s') \<and>
      length (visible_parts s') \<le> length (visible_parts s) * 2 ^ length (splitters s)) \<and>
   (i < length (visible_parts s) \<and> i \<notin> seen \<and>
    allclose (position sp) (position (visible_parts s ! i)) (1 / 100) \<and>
    (\<forall>j. i + j < length (visible_parts s) \<longrightarrow>
       \<not> two_ghost_coming_from_different_sides_of_splitter ut (visible_parts s ! i)
           (visible_parts s ! (i + j)) (splitterType sp)) \<longrightarrow>
    length (visible_parts (fst (process_part ut sp (i, visible_parts s ! i) (s, seen)))) =
      Suc (length (visible_parts s)))"
proof (intro conjI impI allI)
  assume "MAX_GHOSTS_PER_STATE cfg < length (visible_parts s)"
  then show "update cfg ut r1 r2 s ps = Inr (s, ps)"
    by (simp add: update_def)
next
  fix s' ps'
  assume u: "update cfg ut r1 r2 s ps = Inr (s', ps')"
  then have "s' = s \<or> s' = interact_with_splitter ut s"
    by (auto simp: update_def Let_def split: if_splits sum.splits)
  then show "prefix (visible_parts s) (visible_parts s')"
    using interact_parts [of s ut] by auto
  from \<open>s' = s \<or> s' = interact_with_splitter ut s\<close>
  show "length (visible_parts s') \<le> length (visible_parts s) * 2 ^ length (splitters s)"
    using interact_parts [of s ut] by auto
next
  assume h: "i < length (visible_parts s) \<and> i \<notin> seen \<and>
    allclose (position sp) (position (visible_parts s ! i)) (1 / 100) \<and>
    (\<forall>j. i + j < length (visible_parts s) \<longrightarrow>
       \<not> two_ghost_coming_from_different_sides_of_splitter ut (visible_parts s ! i)
           (visible_parts s ! (i + j)) (splitterType sp))"
  then have "process_part ut sp (i, visible_parts s ! i) (s, seen) =
      (s\<lparr>quantum_state := beam_splitter ut (quantum_state s) i None,
         visible_parts := visible_parts s @
           [Ghost_init (position (visible_parts s ! i))
              (Some (split_last_move (splitterType sp) (last_move (visible_parts s ! i))))]\<rparr>,
       seen)"
    by (intro process_part_split) simp_all
  then show "length (visible_parts (fst (process_part ut sp (i, visible_parts s ! i) (s, seen)))) =
      Suc (length (visible_parts s))"
    by simp
qed

theorem capacity_guard_at_frame_start_only_witness:
  "MAX_GHOSTS_PER_STATE
     \<lparr>GHOST_SPEED = 1 / 2, MAX_GHOSTS_PER_STATE = 2, PROB_GHOST_ATTACK = 1 / 2, GHOST_ATTACK_RADIUS = 1\<rparr>
     < length [\<lparr>position = (0, 0), last_move = (-1, 0)\<rparr>, \<lparr>position = (5, 5), last_move = (-1, 0)\<rparr>,
               \<lparr>position = (0, 0), last_move = (0, 1)\<rparr>] \<and>
   update
     \<lparr>GHOST_SPEED = 1 / 2, MAX_GHOSTS_PER_STATE = 2, PROB_GHOST_ATTACK = 1 / 2, GHOST_ATTACK_RADIUS = 1\<rparr>
     passive_utils 0 0
     \<lparr>position = (0, 0), last_move = (-1, 0), quantum_state = [0, 1, 0, 0],
      visible_parts = [\<lparr>position = (0, 0), last_move = (-1, 0)\<rparr>,
                       \<lparr>position = (5, 5), last_move = (-1, 0)\<rparr>,
                       \<lparr>position = (0, 0), last_move = (0, 1)\<rparr>],
      splitters = [\<lparr>position = (0, 0), splitterType = ''45''\<rparr>]\<rparr>
     (\<lparr>position = (0, 0), health = 3\<rparr>, 0) =
   Inr (\<lparr>position = (0, 0), last_move = (-1, 0), quantum_state = [0, 1, 0, 0],
        visible_parts = [\<lparr>position = (0, 0), last_move = (-1, 0)\<rparr>,
                         \<lparr>position = (5, 5), last_move = (-1, 0)\<rparr>,
                         \<lparr>position = (0, 0), last_move = (0, 1)\<rparr>],
        splitters = [\<lparr>position = (0, 0), splitterType = ''45''\<rparr>]\<rparr>,
        \<lparr>position = (0, 0), health = 3\<rparr>, 0) \<and>
   prefix [\<lparr>position = (0, 0), last_move = (-1, 0)\<rparr>, \<lparr>position = (5, 5), last_move = (-1, 0)\<rparr>,
           \<lparr>position = (0, 0), last_move = (0, 1)\<rparr>]
          [\<lparr>position = (0, 0), last_move = (-1, 0)\<rparr>, \<lparr>position = (5, 5), last_move = (-1, 0)\<rparr>,
           \<lparr>position = (0, 0), last_move = (0, 1)\<rparr>] \<and>
   (0 < length [\<lparr>position = (0, 0), last_move = (-1, 0)\<rparr>, \<lparr>position = (5, 5), last_move = (-1, 0)\<rparr>,
                \<lparr>position = (0, 0), last_move = (0, 1)\<rparr>] \<and>
    0 \<notin> ({} :: nat set) \<and> allclose (0, 0) (0, 0) (1 / 100) \<and>
    \<not> complementary_inputs \<lparr>position = (0, 0), last_move = (-1, 0)\<rparr>
        \<lparr>position = (0, 0), last_move = (-1, 0)\<rparr> ''45'' \<and>
    \<not> complementary_inputs \<lparr>position = (0, 0), last_move = (-1, 0)\<rparr>
        \<lparr>position = (5, 5), last_move = (-1, 0)\<rparr> ''45'' \<and>
    \<not> complementary_inputs \<lparr>position = (0, 0), last_move = (-1, 0)\<rparr>
        \<lparr>position = (0, 0), last_move = (0, 1)\<rparr> ''45'') \<and>
   length (visible_parts (fst (process_part passive_utils \<lparr>position = (0, 0), splitterType = ''45''\<rparr>
     (0, \<lparr>position = (0, 0), last_move = (-1, 0)\<rparr>)
     (\<lparr>position = (0, 0), last_move = (-1, 0), quantum_state = [0, 1, 0, 0],
       visible_parts = [\<lparr>position = (0, 0), last_move = (-1, 0)\<rparr>,
                        \<lparr>position = (5, 5), last_move = (-1, 0)\<rparr>,
                        \<lparr>position = (0, 0), last_move = (0, 1)\<rparr>],
       splitters = [\<lparr>position = (0, 0), splitterType = ''45''\<rparr>]\<rparr>, {})))) = 4"
  using capacity_guard_at_frame_start_only
    [where cfg = "\<lparr>GHOST_SPEED = 1 / 2, MAX_GHOSTS_PER_STATE = 2, PROB_GHOST_ATTACK = 1 / 2, GHOST_ATTACK_RADIUS = 1\<rparr>"
       and ut = passive_utils and ?r1.0 = 0 and ?r2.0 = 0 and i = 0 and seen = "{}"
       and sp = "\<lparr>position = (0, 0), splitterType = ''45''\<rparr>"
       and ps = "(\<lparr>position = (0, 0), health = 3\<rparr>, 0)"
       and s = "\<lparr>position = (0, 0), last_move = (-1, 0), quantum_state = [0, 1, 0, 0],
                 visible_parts = [\<lparr>position = (0, 0), last_move = (-1, 0)\<rparr>,
                                  \<lparr>position = (5, 5), last_move = (-1, 0)\<rparr>,
                                  \<lparr>position = (0, 0), last_move = (0, 1)\<rparr>],
                 splitters = [\<lparr>position = (0, 0), splitterType = ''45''\<rparr>]\<rparr>"]
  by (simp add: passive_utils_def complementary_inputs_def allclose_def less_Suc_eq
      numeral_3_eq_3)

text \<open>
  With a maximum of 2 and two parts moving left, the first of them on a \<open>"45"\<close>
  splitter, one frame ends with three visible parts. The first draw is above
  \<open>PROB_GHOST_ATTACK\<close>, so the frame reads no quantum state.
\<close>

theorem capacity_counterexample:
  "length [\<lparr>position = (0, 0), last_move = (-1, 0)\<rparr>, \<lparr>position = (5, 5), last_move = (-1, 0)\<rparr>]
     \<le> MAX_GHOSTS_PER_STATE
          \<lparr>GHOST_SPEED = 1 / 2, MAX_GHOSTS_PER_STATE = 2, PROB_GHOST_ATTACK = 1 / 2, GHOST_ATTACK_RADIUS = 1\<rparr> \<and>
   update
     \<lparr>GHOST_SPEED = 1 / 2, MAX_GHOSTS_PER_STATE = 2, PROB_GHOST_ATTACK = 1 / 2, GHOST_ATTACK_RADIUS = 1\<rparr>
     passive_utils (9 / 10) 0
     \<lparr>position = (0, 0), last_move = (-1, 0), quantum_state = [0, 1, 0, 0],
      visible_parts = [\<lparr>position = (0, 0), last_move = (-1, 0)\<rparr>,
                       \<lparr>position = (5, 5), last_move = (-1, 0)\<rparr>],
      splitters = [\<lparr>position = (0, 0), splitterType = ''45''\<rparr>]\<rparr>
     (\<lparr>position = (9, 9), health = 3\<rparr>, 0) =
   Inr (\<lparr>position = (0, 0), last_move = (-1, 0), quantum_state = [0, 1, 0, 0],
        visible_parts = [\<lparr>position = (0, 0), last_move = (-1, 0)\<rparr>,
                         \<lparr>position = (5, 5), last_move = (-1, 0)\<rparr>,
                         \<lparr>position = (0, 0), last_move = (0, 1)\<rparr>],
        splitters = [\<lparr>position = (0, 0), splitterType = ''45''\<rparr>]\<rparr>,
        \<lparr>position = (9, 9), health = 3\<rparr>, 0) \<and>
   \<not> length [\<lparr>position = (0, 0), last_move = (-1, 0)\<rparr>, \<lparr>position = (5, 5), last_move = (-1, 0)\<rparr>,
             \<lparr>position = (0, 0), last_move = (0, 1)\<rparr>]
     \<le> MAX_GHOSTS_PER_STATE
          \<lparr>GHOST_SPEED = 1 / 2, MAX_GHOSTS_PER_STATE = 2, PROB_GHOST_ATTACK = 1 / 2, GHOST_ATTACK_RADIUS = 1\<rparr>"
  by (simp add: update_def attack_def interact_with_splitter_def interact_scan_def splitter_pass_def
      process_part_def passive_utils_def complementary_inputs_def allclose_def
      add_visible_ghost_def Ghost_init_def split_last_move_def)

subsection \<open>Candidates of the coincidence test\<close>

text \<open>
  C7, as the code has it. For a part at index \<open>i\<close> that lies on the splitter and is not
  marked seen, the candidates handed to the coincidence test are all entries of
  \<open>visible_parts[i:]\<close>: the part itself at offset 0 and every later part, marked seen or
  not, wherever it stands. The marks added are exactly \<open>i\<close> and \<open>i + j\<close> for the
  offsets \<open>j\<close> at which the test succeeds, and the part is split exactly when the test
  fails at every offset.
\<close>

theorem candidates_of_scan:
  "i < length (visible_parts s) \<and> i \<notin> seen \<and>
   allclose (position sp) (position (visible_parts s ! i)) (1 / 100) \<longrightarrow>
   snd (process_part ut sp (i, visible_parts s ! i) (s, seen)) =
     seen \<union> {k. \<exists>j. i + j < length (visible_parts s) \<and>
                    two_ghost_coming_from_different_sides_of_splitter ut (visible_parts s ! i)
                      (visible_parts s ! (i + j)) (splitterType sp) \<and>
                    (k = i \<or> k = i + j)} \<and>
   (visible_parts (fst (process_part ut sp (i, visible_parts s ! i) (s, seen))) = visible_parts s
      \<longleftrightarrow> (\<exists>j. i + j < length (visible_parts s) \<and>
                two_ghost_coming_from_different_sides_of_splitter ut (visible_parts s ! i)
                  (visible_parts s ! (i + j)) (splitterType sp)))"
proof (intro impI)
  let ?g = "visible_parts s ! i"
  let ?js = "coinciding ut ?g (splitterType sp) (enumerate 0 (drop i (visible_parts s)))"
  let ?C = "{k. \<exists>j. i + j < length (visible_parts s) \<and>
                    two_ghost_coming_from_different_sides_of_splitter ut ?g
                      (visible_parts s ! (i + j)) (splitterType sp) \<and>
                    (k = i \<or> k = i + j)}"
  assume h: "i < length (visible_parts s) \<and> i \<notin> seen \<and>
   allclose (position sp) (position ?g) (1 / 100)"
  have C: "(\<Union>j\<in>set ?js. {i, i + j}) = ?C"
    by (auto simp: set_coinciding_drop)
  have E: "(?js = []) = (\<not> (\<exists>j. i + j < length (visible_parts s) \<and>
                two_ghost_coming_from_different_sides_of_splitter ut ?g
                  (visible_parts s ! (i + j)) (splitterType sp)))"
    by (simp add: coinciding_drop_empty)
  show "snd (process_part ut sp (i, ?g) (s, seen)) = seen \<union> ?C \<and>
   (visible_parts (fst (process_part ut sp (i, ?g) (s, seen))) = visible_parts s
      \<longleftrightarrow> (\<exists>j. i + j < length (visible_parts s) \<and>
                two_ghost_coming_from_different_sides_of_splitter ut ?g
                  (visible_parts s ! (i + j)) (splitterType sp)))"
  proof (cases "?js = []")
    case True
    with h have pp: "process_part ut sp (i, ?g) (s, seen) =
      (s\<lparr>quantum_state := beam_splitter ut (quantum_state s) i None,
         visible_parts := visible_parts s @
           [Ghost_init (position ?g) (Some (split_last_move (splitterType sp) (last_move ?g)))]\<rparr>,
       seen)"
      by (simp add: process_part_eq)
    from True C have CE: "?C = {}"
      by simp
    from True E have nex: "\<not> (\<exists>j. i + j < length (visible_parts s) \<and>
                two_ghost_coming_from_different_sides_of_splitter ut ?g
                  (visible_parts s ! (i + j)) (splitterType sp))"
      by simp
    have 1: "snd (process_part ut sp (i, ?g) (s, seen)) = seen \<union> ?C"
      by (simp only: pp CE snd_conv Un_empty_right)
    have 2: "visible_parts (fst (process_part ut sp (i, ?g) (s, seen))) = visible_parts s
      \<longleftrightarrow> (\<exists>j. i + j < length (visible_parts s) \<and>
                two_ghost_coming_from_different_sides_of_splitter ut ?g
                  (visible_parts s ! (i + j)) (splitterType sp))"
      using nex by (simp add: pp)
    from 1 2 show ?thesis ..
  next
    case False
    with h have pp: "process_part ut sp (i, ?g) (s, seen) =
      (s\<lparr>quantum_state := fold (\<lambda>j q. beam_splitter ut q i (Some j)) ?js (quantum_state s)\<rparr>,
       seen \<union> (\<Union>j\<in>set ?js. {i, i + j}))"
      by (intro process_part_merge) simp_all
    from False E have ex: "\<exists>j. i + j < length (visible_parts s) \<and>
                two_ghost_coming_from_different_sides_of_splitter ut ?g
                  (visible_parts s ! (i + j)) (splitterType sp)"
      by simp
    have 1: "snd (process_part ut sp (i, ?g) (s, seen)) = seen \<union> ?C"
      by (simp only: pp C snd_conv)
    have 2: "visible_parts (fst (process_part ut sp (i, ?g) (s, seen))) = visible_parts s
      \<longleftrightarrow> (\<exists>j. i + j < length (visible_parts s) \<and>
                two_ghost_coming_from_different_sides_of_splitter ut ?g
                  (visible_parts s ! (i + j)) (splitterType sp))"
      using ex by (simp add: pp)
    from 1 2 show ?thesis ..
  qed
qed

theorem candidates_of_scan_witness:
  "(1 < length [\<lparr>position = (0, 0), last_move = (0, 1)\<rparr>, \<lparr>position = (0, 0), last_move = (0, 1)\<rparr>,
                \<lparr>position = (0, 0), last_move = (1, 0)\<rparr>] \<and>
    1 \<notin> {0, 2 :: nat} \<and> allclose (0, 0) (0, 0) (1 / 100)) \<and>
   snd (process_part recording_utils \<lparr>position = (0, 0), splitterType = ''45''\<rparr>
     (1, \<lparr>position = (0, 0), last_move = (0, 1)\<rparr>)
     (\<lparr>position = (0, 0), last_move = (-1, 0), quantum_state = [(0, Some 2)],
       visible_parts = [\<lparr>position = (0, 0), last_move = (0, 1)\<rparr>,
                        \<lparr>position = (0, 0), last_move = (0, 1)\<rparr>,
                        \<lparr>position = (0, 0), last_move = (1, 0)\<rparr>],
       splitters = [\<lparr>position = (0, 0), splitterType = ''45''\<rparr>]\<rparr>, {0, 2})) = {0, 1, 2}"
  using candidates_of_scan
    [where i = 1 and seen = "{0, 2}" and ut = recording_utils
       and sp = "\<lparr>position = (0, 0), splitterType = ''45''\<rparr>"
       and s = "\<lparr>position = (0, 0), last_move = (-1, 0), quantum_state = [(0, Some 2)],
                 visible_parts = [\<lparr>position = (0, 0), last_move = (0, 1)\<rparr>,
                                  \<lparr>position = (0, 0), last_move = (0, 1)\<rparr>,
                                  \<lparr>position = (0, 0), last_move = (1, 0)\<rparr>],
                 splitters = [\<lparr>position = (0, 0), splitterType = ''45''\<rparr>]\<rparr>"]
  by (simp add: process_part_def recording_utils_def complementary_inputs_def allclose_def
      numeral_2_eq_2) blast

text \<open>
  Three parts on a \<open>"45"\<close> splitter with last moves up, up and right. Part 0 coincides
  with part 2, which marks 0 and 2. Part 1 is then tested against part 2 although part 2
  is marked seen: a second two-index transform is requested and part 1 is marked, where a
  scan that left out seen candidates would have split part 1.
\<close>

theorem candidates_of_scan_counterexample:
  "process_part recording_utils \<lparr>position = (0, 0), splitterType = ''45''\<rparr>
     (0, \<lparr>position = (0, 0), last_move = (0, 1)\<rparr>)
     (\<lparr>position = (0, 0), last_move = (-1, 0), quantum_state = [],
       visible_parts = [\<lparr>position = (0, 0), last_move = (0, 1)\<rparr>,
                        \<lparr>position = (0, 0), last_move = (0, 1)\<rparr>,
                        \<lparr>position = (0, 0), last_move = (1, 0)\<rparr>],
       splitters = [\<lparr>position = (0, 0), splitterType = ''45''\<rparr>]\<rparr>, {}) =
     (\<lparr>position = (0, 0), last_move = (-1, 0), quantum_state = [(0, Some 2)],
       visible_parts = [\<lparr>position = (0, 0), last_move = (0, 1)\<rparr>,
                        \<lparr>position = (0, 0), last_move = (0, 1)\<rparr>,
                        \<lparr>position = (0, 0), last_move = (1, 0)\<rparr>],
       splitters = [\<lparr>position = (0, 0), splitterType = ''45''\<rparr>]\<rparr>, {0, 2}) \<and>
   process_part recording_utils \<lparr>position = (0, 0), splitterType = ''45''\<rparr>
     (1, \<lparr>position = (0, 0), last_move = (0, 1)\<rparr>)
     (\<lparr>position = (0, 0), last_move = (-1, 0), quantum_state = [(0, Some 2)],
       visible_parts = [\<lparr>position = (0, 0), last_move = (0, 1)\<rparr>,
                        \<lparr>position = (0, 0), last_move = (0, 1)\<rparr>,
                        \<lparr>position = (0, 0), last_move = (1, 0)\<rparr>],
       splitters = [\<lparr>position = (0, 0), splitterType = ''45''\<rparr>]\<rparr>, {0, 2}) =
     (\<lparr>position = (0, 0), last_move = (-1, 0), quantum_state = [(0, Some 2), (1, Some 1)],
       visible_parts = [\<lparr>position = (0, 0), last_move = (0, 1)\<rparr>,
                        \<lparr>position = (0, 0), last_move = (0, 1)\<rparr>,
                        \<lparr>position = (0, 0), last_move = (1, 0)\<rparr>],
       splitters = [\<lparr>position = (0, 0), splitterType = ''45''\<rparr>]\<rparr>, {0, 1, 2}) \<and>
   interact_scan recording_utils
     \<lparr>position = (0, 0), last_move = (-1, 0), quantum_state = [],
       visible_parts = [\<lparr>position = (0, 0), last_move = (0, 1)\<rparr>,
                        \<lparr>position = (0, 0), last_move = (0, 1)\<rparr>,
                        \<lparr>position = (0, 0), last_move = (1, 0)\<rparr>],
       splitters = [\<lparr>position = (0, 0), splitterType = ''45''\<rparr>]\<rparr> =
     (\<lparr>position = (0, 0), last_move = (-1, 0), quantum_state = [(0, Some 2), (1, Some 1)],
       visible_parts = [\<lparr>position = (0, 0), last_move = (0, 1)\<rparr>,
                        \<lparr>position = (0, 0), last_move = (0, 1)\<rparr>,
                        \<lparr>position = (0, 0), last_move = (1, 0)\<rparr>],
       splitters = [\<lparr>position = (0, 0), splitterType = ''45''\<rparr>]\<rparr>, {0, 1, 2})"
  by (simp add: interact_scan_def splitter_pass_def process_part_def recording_utils_def
      complementary_inputs_def allclose_def numeral_2_eq_2) blast

subsection \<open>The initial state\<close>

text \<open>
  C8, as the code has it. With \<open>MAX_GHOSTS_PER_STATE\<close> above 1 the constructor succeeds
  and the quantum state is \<open>ket([1], MAX_GHOSTS_PER_STATE)\<close>: a vector of that length
  with amplitude 1 at index 1 and amplitude 0 at every other index, index 0 included. Its
  norm is 1, and \<open>attack\<close> finds the single visible part present with certainty: the
  norm it subtracts from 1 for part 0 is 0.
\<close>

theorem initial_state:
  assumes "1 < MAX_GHOSTS_PER_STATE cfg"
  shows "\<exists>s. QGhost_init cfg pos spl = Inr s \<and>
           length (quantum_state s) = MAX_GHOSTS_PER_STATE cfg \<and>
           (\<forall>k<MAX_GHOSTS_PER_STATE cfg. quantum_state s ! k = (if k = 1 then 1 else 0)) \<and>
           norm_l2 (quantum_state s) = 1 \<and>
           p_not_here (MAX_GHOSTS_PER_STATE cfg) (length (visible_parts s)) 0 (quantum_state s) = Inr 0"
proof -
  let ?M = "MAX_GHOSTS_PER_STATE cfg"
  let ?q = "(replicate ?M (0::complex))[1 := 1]"
  let ?s = "\<lparr>position = pos, last_move = (-1, 0), quantum_state = ?q,
             visible_parts = [Ghost_init pos None], splitters = spl\<rparr>"
  have "QGhost_init cfg pos spl = Inr ?s"
    using assms by (simp add: QGhost_init_def Let_def ket_def add_visible_ghost_def Ghost_init_def)
  moreover have "length (quantum_state ?s) = ?M"
    by simp
  moreover have "\<forall>k<?M. quantum_state ?s ! k = (if k = 1 then 1 else 0)"
    by simp
  moreover have "norm_l2 (quantum_state ?s) = 1"
    using norm_l2_ket [OF assms] by simp
  moreover have "p_not_here ?M (length (visible_parts ?s)) 0 (quantum_state ?s) = Inr 0"
    using p_not_here_ket [OF assms] by simp
  ultimately show ?thesis
    by blast
qed

theorem initial_state_witness:
  "1 < MAX_GHOSTS_PER_STATE
         \<lparr>GHOST_SPEED = 1 / 2, MAX_GHOSTS_PER_STATE = 3, PROB_GHOST_ATTACK = 1 / 2, GHOST_ATTACK_RADIUS = 1\<rparr> \<and>
   (\<exists>s. QGhost_init
          \<lparr>GHOST_SPEED = 1 / 2, MAX_GHOSTS_PER_STATE = 3, PROB_GHOST_ATTACK = 1 / 2, GHOST_ATTACK_RADIUS = 1\<rparr>
          (3, 4) [] = Inr s \<and>
        length (quantum_state s) = 3 \<and>
        (\<forall>k<3. quantum_state s ! k = (if k = 1 then 1 else 0)) \<and>
        norm_l2 (quantum_state s) = 1 \<and>
        p_not_here 3 (length (visible_parts s)) 0 (quantum_state s) = Inr 0)"
  using initial_state
    [where cfg = "\<lparr>GHOST_SPEED = 1 / 2, MAX_GHOSTS_PER_STATE = 3, PROB_GHOST_ATTACK = 1 / 2, GHOST_ATTACK_RADIUS = 1\<rparr>"
       and pos = "(3, 4)" and spl = "[]"]
  by simp

text \<open>
  For a maximum of 3 the constructed state is \<open>[0, 1, 0]\<close>: index 0 holds no amplitude,
  and the state differs from the basis vector of index 0.
\<close>

theorem initial_state_counterexample:
  "QGhost_init
     \<lparr>GHOST_SPEED = 1 / 2, MAX_GHOSTS_PER_STATE = 3, PROB_GHOST_ATTACK = 1 / 2, GHOST_ATTACK_RADIUS = 1\<rparr>
     (3, 4) [] =
   Inr \<lparr>position = (3, 4), last_move = (-1, 0), quantum_state = [0, 1, 0],
        visible_parts = [\<lparr>position = (3, 4), last_move = (-1, 0)\<rparr>], splitters = []\<rparr> \<and>
   [0, 1, 0 :: complex] ! 0 = 0 \<and> [0, 1, 0 :: complex] ! 1 = 1 \<and>
   [0, 1, 0 :: complex] \<noteq> (replicate 3 0)[0 := 1]"
  by (simp add: QGhost_init_def Let_def ket_def add_visible_ghost_def Ghost_init_def numeral_3_eq_3)

subsection \<open>Movement\<close>

text \<open>
  C9, as the code has it. \<open>calculate_move_vector\<close> returns the zero vector or one of the
  four unit steps of \<open>DIR_DICT\<close>, but \<open>Ghost.update\<close> overwrites its result: the
  vector handed to \<open>Unit.update\<close> is the last move of the part, whatever the draws and
  the settings are, and the last move is the same after the update.
\<close>

theorem ghost_moves_along_last_move:
  "update_moveVector cfg r k g = last_move g \<and>
   Ghost_update unit_update cfg r k g = (unit_update (last_move g) g)\<lparr>last_move := last_move g\<rparr> \<and>
   last_move (Ghost_update unit_update cfg r k g) = last_move g \<and>
   calculate_move_vector cfg r k \<in> {(0, 0), (-1, 0), (1, 0), (0, -1), (0, 1)}"
  by (cases k) (simp_all add: update_moveVector_def Ghost_update_def calculate_move_vector_def Let_def)

text \<open>
  A part built without a last move, with \<open>GHOST_SPEED\<close> one half. When the draws
  select the step up, and when they select no step at all, the vector of the frame is
  \<open>(-1, 0)\<close> all the same.
\<close>

theorem random_walk_counterexample:
  "calculate_move_vector
      \<lparr>GHOST_SPEED = 1 / 2, MAX_GHOSTS_PER_STATE = 8, PROB_GHOST_ATTACK = 1 / 2, GHOST_ATTACK_RADIUS = 1\<rparr>
      (9 / 10) U = (0, 1) \<and>
   update_moveVector
      \<lparr>GHOST_SPEED = 1 / 2, MAX_GHOSTS_PER_STATE = 8, PROB_GHOST_ATTACK = 1 / 2, GHOST_ATTACK_RADIUS = 1\<rparr>
      (9 / 10) U (Ghost_init (3, 4) None) = (-1, 0) \<and>
   calculate_move_vector
      \<lparr>GHOST_SPEED = 1 / 2, MAX_GHOSTS_PER_STATE = 8, PROB_GHOST_ATTACK = 1 / 2, GHOST_ATTACK_RADIUS = 1\<rparr>
      (1 / 10) U = (0, 0) \<and>
   update_moveVector
      \<lparr>GHOST_SPEED = 1 / 2, MAX_GHOSTS_PER_STATE = 8, PROB_GHOST_ATTACK = 1 / 2, GHOST_ATTACK_RADIUS = 1\<rparr>
      (1 / 10) U (Ghost_init (3, 4) None) = (-1, 0)"
  by (simp add: calculate_move_vector_def update_moveVector_def Ghost_init_def)

text \<open>
  C10. A \<open>Ghost\<close> built without \<open>last_move\<close> has last move \<open>(-1, 0)\<close>. When
  \<open>MAX_GHOSTS_PER_STATE\<close> is above 1 the constructor of \<open>QGhost\<close> succeeds, the
  \<open>QGhost\<close> itself has last move \<open>(-1, 0)\<close>, and its only visible part stands at the
  start position with last move \<open>(-1, 0)\<close>.
\<close>

theorem default_last_move:
  assumes "1 < MAX_GHOSTS_PER_STATE cfg"
  shows "last_move (Ghost_init p None) = (-1, 0) \<and>
         (\<exists>s. QGhost_init cfg pos spl = Inr s \<and> last_move s = (-1, 0) \<and>
              visible_parts s = [\<lparr>position = pos, last_move = (-1, 0)\<rparr>])"
  using assms by (simp add: Ghost_init_def QGhost_init_def ket_def add_visible_ghost_def)

theorem default_last_move_witness:
  "1 < MAX_GHOSTS_PER_STATE
         \<lparr>GHOST_SPEED = 1 / 2, MAX_GHOSTS_PER_STATE = 8, PROB_GHOST_ATTACK = 1 / 2, GHOST_ATTACK_RADIUS = 1\<rparr> \<and>
   last_move (Ghost_init (3, 4) None) = (-1, 0) \<and>
   (\<exists>s. QGhost_init
          \<lparr>GHOST_SPEED = 1 / 2, MAX_GHOSTS_PER_STATE = 8, PROB_GHOST_ATTACK = 1 / 2, GHOST_ATTACK_RADIUS = 1\<rparr>
          (3, 4) [] = Inr s \<and>
        last_move s = (-1, 0) \<and>
        visible_parts s = [\<lparr>position = (3, 4), last_move = (-1, 0)\<rparr>])"
  using default_last_move
    [where cfg = "\<lparr>GHOST_SPEED = 1 / 2, MAX_GHOSTS_PER_STATE = 8, PROB_GHOST_ATTACK = 1 / 2, GHOST_ATTACK_RADIUS = 1\<rparr>"
       and p = "(3, 4)" and pos = "(3, 4)" and spl = "[]"]
  by simp

end
